theory Spec2Isabelle
  imports Complex_Main
begin

section \<open>Query parameters\<close>

text \<open>
  The two entry points of the repository, \<^verbatim>\<open>handleRequest\<close> in \<^verbatim>\<open>_worker.js\<close>
  and \<^verbatim>\<open>onRequest\<close> in \<^verbatim>\<open>my-vercel-project/api/music.js\<close>, each rewrite the
  caller's query, call the upstream API once and reshape its JSON answer. The third,
  unnamed source file is not a program: line 8 opens a template literal that is never
  closed, so the module does not parse, and nothing of it is modelled.

  Strings are byte strings holding UTF-8; none of the code looks at string lengths.
  A query is the list of name/value pairs of the URL, in order, duplicates included.
\<close>

type_synonym params = "(string \<times> string) list"

subsection \<open>\<^verbatim>\<open>URLSearchParams\<close> (used by \<^verbatim>\<open>_worker.js\<close>)\<close>

text \<open>
  \<^verbatim>\<open>set(name, value)\<close>: if the name occurs, the first pair with that name gets the
  value and all other pairs with that name are removed; otherwise the pair is appended.
  \<^verbatim>\<open>get\<close> reads the first value (\<^verbatim>\<open>null\<close> is \<open>None\<close>), \<^verbatim>\<open>delete\<close>
  removes every pair with the name.
\<close>

definition URLSearchParams_has :: "params \<Rightarrow> string \<Rightarrow> bool" where
  "URLSearchParams_has ps k = (k \<in> set (map fst ps))"

definition URLSearchParams_get :: "params \<Rightarrow> string \<Rightarrow> string option" where
  "URLSearchParams_get ps k = map_of ps k"

definition URLSearchParams_getAll :: "params \<Rightarrow> string \<Rightarrow> string list" where
  "URLSearchParams_getAll ps k = map snd (filter (\<lambda>p. fst p = k) ps)"

definition URLSearchParams_delete :: "params \<Rightarrow> string \<Rightarrow> params" where
  "URLSearchParams_delete ps k = filter (\<lambda>p. fst p \<noteq> k) ps"

fun URLSearchParams_set :: "params \<Rightarrow> string \<Rightarrow> string \<Rightarrow> params" where
  "URLSearchParams_set [] k v = [(k, v)]"
| "URLSearchParams_set (p # ps) k v =
     (if fst p = k then (k, v) # URLSearchParams_delete ps k
      else p # URLSearchParams_set ps k v)"

subsection \<open>\<^verbatim>\<open>Map\<close> (used by \<^verbatim>\<open>music.js\<close>)\<close>

text \<open>
  A \<^verbatim>\<open>Map\<close> is its list of entries in insertion order, with one entry per key.
  \<^verbatim>\<open>set\<close> on a key already there replaces the value in place, otherwise appends.
\<close>

definition Map_has :: "params \<Rightarrow> string \<Rightarrow> bool" where
  "Map_has m k = (k \<in> set (map fst m))"

definition Map_get :: "params \<Rightarrow> string \<Rightarrow> string option" where
  "Map_get m k = map_of m k"

fun Map_set :: "params \<Rightarrow> string \<Rightarrow> string \<Rightarrow> params" where
  "Map_set [] k v = [(k, v)]"
| "Map_set (p # m) k v = (if fst p = k then (k, v) # m else p # Map_set m k v)"

fun Map_delete :: "params \<Rightarrow> string \<Rightarrow> params" where
  "Map_delete [] k = []"
| "Map_delete (p # m) k = (if fst p = k then m else p # Map_delete m k)"

text \<open>\<^verbatim>\<open>for (const [key, value] of searchParams.entries()) requestParams.set(key, value)\<close>\<close>

fun Map_of_entries :: "params \<Rightarrow> params \<Rightarrow> params" where
  "Map_of_entries m [] = m"
| "Map_of_entries m (p # ps) = Map_of_entries (Map_set m (fst p) (snd p)) ps"

subsection \<open>Section 1 of the handlers: parameter rewriting\<close>

text \<open>
  \<^verbatim>\<open>_worker.js\<close>, lines 36 to 53, on \<^verbatim>\<open>url.searchParams\<close>. The \<^verbatim>\<open>get\<close> under
  the \<^verbatim>\<open>has\<close> test cannot return \<^verbatim>\<open>null\<close>; the branch is written out as
  JavaScript would run it (\<^verbatim>\<open>set\<close> turns \<^verbatim>\<open>null\<close> into the string "null").
\<close>

definition handleRequest_params :: "params \<Rightarrow> params" where
  "handleRequest_params params0 =
     (let params1 = URLSearchParams_set params0 ''type'' ''json'';
          params2 = (if \<not> URLSearchParams_has params1 ''br''
                     then URLSearchParams_set params1 ''br'' ''1'' else params1);
          params3 = URLSearchParams_set params2 ''n'' ''1''
      in if URLSearchParams_has params3 ''name''
         then URLSearchParams_delete
                (URLSearchParams_set params3 ''msg''
                   (case URLSearchParams_get params3 ''name'' of
                      Some v \<Rightarrow> v | None \<Rightarrow> ''null''))
                ''name''
         else params3)"

text \<open>
  \<^verbatim>\<open>music.js\<close>, lines 20 to 45: the entries are copied into a fresh \<^verbatim>\<open>Map\<close>, which
  is rewritten; the result is the map's entries (\<^verbatim>\<open>requestParams.entries()\<close>).
\<close>

definition onRequest_params :: "params \<Rightarrow> params" where
  "onRequest_params searchParams =
     (let requestParams0 = Map_of_entries [] searchParams;
          requestParams1 = (if \<not> Map_has requestParams0 ''type''
                            then Map_set requestParams0 ''type'' ''json'' else requestParams0);
          requestParams2 = (if \<not> Map_has requestParams1 ''br''
                            then Map_set requestParams1 ''br'' ''1'' else requestParams1);
          requestParams3 = Map_set requestParams2 ''n'' ''1''
      in if Map_has requestParams3 ''name''
         then Map_delete
                (Map_set requestParams3 ''msg''
                   (case Map_get requestParams3 ''name'' of
                      Some v \<Rightarrow> v | None \<Rightarrow> ''undefined''))
                ''name''
         else requestParams3)"

section \<open>JavaScript values\<close>

text \<open>
  A parsed JSON document, as \<^verbatim>\<open>response.json()\<close> returns it. A number is a double:
  \<open>JNum\<close> gives a finite one by its exact value, a rational, and \<open>JNumX\<close> is one of
  the three doubles a JSON text can denote that are no rational: \<^verbatim>\<open>-0\<close> (the literal
  \<^verbatim>\<open>-0\<close>) and the two infinities (a literal out of range, such as \<^verbatim>\<open>1e400\<close>).
  An object is the list of its own properties in enumeration order, one per key.
\<close>

datatype nonrational = NegZero | PosInfinity | NegInfinity

datatype json =
    JNull
  | JBool bool
  | JNum rat
  | JNumX nonrational
  | JStr string
  | JArr "json list"
  | JObj "(string \<times> json) list"

text \<open>
  What reading a property can yield: \<^verbatim>\<open>undefined\<close>, a JSON value, or a function
  inherited from a prototype.
\<close>

datatype jsval = Undefined | Function | J json

fun truthy :: "jsval \<Rightarrow> bool" where
  "truthy Undefined = False"
| "truthy Function = True"
| "truthy (J JNull) = False"
| "truthy (J (JBool b)) = b"
| "truthy (J (JNum n)) = (n \<noteq> 0)"
| "truthy (J (JNumX x)) = (x \<noteq> NegZero)"
| "truthy (J (JStr s)) = (s \<noteq> [])"
| "truthy (J (JArr xs)) = True"
| "truthy (J (JObj kvs)) = True"

fun nullish :: "jsval \<Rightarrow> bool" where
  "nullish Undefined = True"
| "nullish (J JNull) = True"
| "nullish v = False"

text \<open>\<^verbatim>\<open>a || b\<close> and \<^verbatim>\<open>a ?? b\<close>; the right operands in the code are literals.\<close>

definition js_or :: "jsval \<Rightarrow> jsval \<Rightarrow> jsval" where
  "js_or a b = (if truthy a then a else b)"

definition js_coalesce :: "jsval \<Rightarrow> jsval \<Rightarrow> jsval" where
  "js_coalesce a b = (if nullish a then b else a)"

text \<open>\<^verbatim>\<open>a !== 200\<close>\<close>

definition not_strict_200 :: "jsval \<Rightarrow> bool" where
  "not_strict_200 a = (a \<noteq> J (JNum 200))"

text \<open>A thrown error; the code reads only its \<^verbatim>\<open>message\<close>.\<close>

datatype js_error = TypeError string | Error string

fun message :: "js_error \<Rightarrow> string" where
  "message (TypeError m) = m"
| "message (Error m) = m"

definition bind_err :: "js_error + 'a \<Rightarrow> ('a \<Rightarrow> js_error + 'b) \<Rightarrow> js_error + 'b" where
  "bind_err r f = (case r of Inl e \<Rightarrow> Inl e | Inr x \<Rightarrow> f x)"

text \<open>
  Property reads \<^verbatim>\<open>v.k\<close>, for the names the handlers read: \<^verbatim>\<open>code\<close>,
  \<^verbatim>\<open>data\<close>, \<^verbatim>\<open>title\<close>, \<^verbatim>\<open>singer\<close>, \<^verbatim>\<open>cover\<close>, \<^verbatim>\<open>link\<close>,
  \<^verbatim>\<open>music_url\<close>, \<^verbatim>\<open>lrc_url\<close>. On \<^verbatim>\<open>null\<close> and \<^verbatim>\<open>undefined\<close> the read
  throws a \<^verbatim>\<open>TypeError\<close> (the message is V8's). An object yields its own property.
  Of these names only \<^verbatim>\<open>link\<close> is inherited from a prototype: strings have the
  method \<^verbatim>\<open>String.prototype.link\<close>.
\<close>

fun prop_value :: "jsval \<Rightarrow> string \<Rightarrow> jsval" where
  "prop_value (J (JObj kvs)) k = (case map_of kvs k of None \<Rightarrow> Undefined | Some v \<Rightarrow> J v)"
| "prop_value (J (JStr s)) k = (if k = ''link'' then Function else Undefined)"
| "prop_value v k = Undefined"

definition cannot_read :: "jsval \<Rightarrow> string \<Rightarrow> string" where
  "cannot_read v k =
     ''Cannot read properties of '' @ (if v = Undefined then ''undefined'' else ''null'')
       @ '' (reading '' @ [CHR 0x27] @ k @ [CHR 0x27] @ '')''"

definition get_prop :: "jsval \<Rightarrow> string \<Rightarrow> js_error + jsval" where
  "get_prop v k = (if nullish v then Inl (TypeError (cannot_read v k)) else Inr (prop_value v k))"

text \<open>
  \<^verbatim>\<open>JSON.stringify\<close>, read back as the JSON document the caller receives. It
  writes \<^verbatim>\<open>-0\<close> as \<^verbatim>\<open>0\<close> and an infinity as \<^verbatim>\<open>null\<close>, at any depth, and
  everything else as it is.
\<close>

fun JSON_stringify :: "json \<Rightarrow> json" where
  "JSON_stringify (JNumX NegZero) = JNum 0"
| "JSON_stringify (JNumX PosInfinity) = JNull"
| "JSON_stringify (JNumX NegInfinity) = JNull"
| "JSON_stringify (JArr xs) = JArr (map JSON_stringify xs)"
| "JSON_stringify (JObj kvs) = JObj (map (\<lambda>(k, v). (k, JSON_stringify v)) kvs)"
| "JSON_stringify v = v"

text \<open>
  \<^verbatim>\<open>JSON.stringify\<close> of an object literal whose property values were read from
  parsed JSON: properties whose value is \<^verbatim>\<open>undefined\<close> or a function are left out.
\<close>

fun JSON_stringify_object :: "(string \<times> jsval) list \<Rightarrow> (string \<times> json) list" where
  "JSON_stringify_object [] = []"
| "JSON_stringify_object ((k, J v) # kvs) = (k, JSON_stringify v) # JSON_stringify_object kvs"
| "JSON_stringify_object ((k, v) # kvs) = JSON_stringify_object kvs"

text \<open>A document all of whose numbers are rationals: \<^verbatim>\<open>JSON.stringify\<close> writes it as it is.\<close>

fun rational_numbers :: "json \<Rightarrow> bool" where
  "rational_numbers (JNumX x) = False"
| "rational_numbers (JArr xs) = list_all rational_numbers xs"
| "rational_numbers (JObj kvs) = list_all (\<lambda>(k, v). rational_numbers v) kvs"
| "rational_numbers v = True"

text \<open>A number in a template literal: here always an HTTP status, a natural number.\<close>

fun string_of_nat :: "nat \<Rightarrow> string" where
  "string_of_nat n =
     (if n < 10 then [char_of (48 + n)]
      else string_of_nat (n div 10) @ [char_of (48 + n mod 10)])"

section \<open>The platform\<close>

text \<open>
  The outbound call \<^verbatim>\<open>fetch(url, {method, headers})\<close> either rejects with an error
  (its message is kept) or resolves to a response, of which the code reads the status,
  \<^verbatim>\<open>ok\<close> and \<^verbatim>\<open>json()\<close>; \<^verbatim>\<open>json()\<close> either rejects (message kept) or yields
  the parsed body. The platform's \<^verbatim>\<open>fetch\<close>, \<^verbatim>\<open>URLSearchParams.toString\<close> and
  \<^verbatim>\<open>encodeURIComponent\<close> are parameters of the model.
\<close>

record outbound =
  ob_url :: string
  ob_method :: string
  ob_headers :: "(string \<times> string) list"

record upstream_response =
  up_status :: nat
  up_json :: "string + json"

datatype fetch_result = Rejected string | Resolved upstream_response

record platform =
  fetch :: "outbound \<Rightarrow> fetch_result"
  toString :: "params \<Rightarrow> string"
  encodeURIComponent :: "string \<Rightarrow> string"

definition ok :: "upstream_response \<Rightarrow> bool" where
  "ok r = (200 \<le> up_status r \<and> up_status r \<le> 299)"

record request =
  req_method :: string
  req_searchParams :: params

record response =
  status :: nat
  headers :: "(string \<times> string) list"
  body :: json

definition USER_AGENT :: string where
  "USER_AGENT = ''Mozilla/5.0 (Windows NT 10.0; Win64; x64) AppleWebKit/537.36 (KHTML, like Gecko) Chrome/91.0.4472.124 Safari/537.36''"

definition content_type :: "string \<times> string" where
  "content_type = (''Content-Type'', ''application/json; charset=utf-8'')"

definition allow_origin :: "string \<times> string" where
  "allow_origin = (''Access-Control-Allow-Origin'', ''*'')"

section \<open>\<^verbatim>\<open>_worker.js\<close>\<close>

definition TARGET_API_BASE_worker :: string where
  "TARGET_API_BASE_worker = ''http://music-proxy.dc1.de5.net/''"

definition error_body :: "rat \<Rightarrow> string \<Rightarrow> json" where
  "error_body c m = JObj [(''code'', JNum c), (''error_msg'', JStr m)]"

definition msg_network :: string where
  "msg_network = [CHR 0xE8, CHR 0xAF, CHR 0xB7, CHR 0xE6, CHR 0xB1, CHR 0x82, CHR 0xE7, CHR 0x9B, CHR 0xAE, CHR 0xE6, CHR 0xA0, CHR 0x87] @ ''API'' @ [CHR 0xE5, CHR 0xA4, CHR 0xB1, CHR 0xE8, CHR 0xB4, CHR 0xA5] @ '': '' @ [CHR 0xE7, CHR 0xBD, CHR 0x91, CHR 0xE7, CHR 0xBB, CHR 0x9C, CHR 0xE9, CHR 0x94, CHR 0x99, CHR 0xE8, CHR 0xAF, CHR 0xAF] @ '' ''"

definition msg_http_status :: string where
  "msg_http_status = [CHR 0xE8, CHR 0xAF, CHR 0xB7, CHR 0xE6, CHR 0xB1, CHR 0x82, CHR 0xE7, CHR 0x9B, CHR 0xAE, CHR 0xE6, CHR 0xA0, CHR 0x87] @ ''API'' @ [CHR 0xE5, CHR 0xA4, CHR 0xB1, CHR 0xE8, CHR 0xB4, CHR 0xA5] @ '': HTTP'' @ [CHR 0xE7, CHR 0x8A, CHR 0xB6, CHR 0xE6, CHR 0x80, CHR 0x81, CHR 0xE7, CHR 0xA0, CHR 0x81] @ '' ''"

definition msg_parse :: string where
  "msg_parse = [CHR 0xE8, CHR 0xA7, CHR 0xA3, CHR 0xE6, CHR 0x9E, CHR 0x90] @ ''API'' @ [CHR 0xE5, CHR 0x93, CHR 0x8D, CHR 0xE5, CHR 0xBA, CHR 0x94] @ ''JSON'' @ [CHR 0xE5, CHR 0xA4, CHR 0xB1, CHR 0xE8, CHR 0xB4, CHR 0xA5] @ '': ''"

text \<open>Lines 109 to 133: \<^verbatim>\<open>music_data\<close>, \<^verbatim>\<open>final_response\<close> and the last \<^verbatim>\<open>Response\<close>.\<close>

definition handleRequest_final :: "json \<Rightarrow> js_error + response" where
  "handleRequest_final api_data =
     bind_err (get_prop (J api_data) ''data'') (\<lambda>d.
       let music_data = js_or d (J (JObj [])) in
       bind_err (get_prop (J api_data) ''code'') (\<lambda>code.
       bind_err (get_prop music_data ''title'') (\<lambda>title.
       bind_err (get_prop music_data ''singer'') (\<lambda>singer.
       bind_err (get_prop music_data ''cover'') (\<lambda>cover.
       bind_err (get_prop music_data ''link'') (\<lambda>link.
       bind_err (get_prop music_data ''music_url'') (\<lambda>music_url.
       bind_err (get_prop music_data ''lrc_url'') (\<lambda>lrc_url.
         Inr \<lparr>status = 200, headers = [content_type, allow_origin],
              body = JObj (JSON_stringify_object
                [(''code'', js_coalesce code (J (JNum 200))),
                 (''title'', js_coalesce title (J (JStr []))),
                 (''singer'', js_coalesce singer (J (JStr []))),
                 (''cover'', js_coalesce cover (J (JStr []))),
                 (''link'', js_coalesce link (J (JStr []))),
                 (''music_url'', js_coalesce music_url (J (JStr []))),
                 (''lyric'', js_coalesce lrc_url (J (JStr [])))])\<rparr>))))))))"

text \<open>Lines 72 to 107, then the above: what \<^verbatim>\<open>handleRequest\<close> does with the outcome of \<^verbatim>\<open>fetch\<close>.\<close>

definition handleRequest_respond :: "fetch_result \<Rightarrow> js_error + response" where
  "handleRequest_respond outcome =
     (case outcome of
        Rejected m \<Rightarrow>
          Inr \<lparr>status = 500, headers = [content_type], body = error_body 500 (msg_network @ m)\<rparr>
      | Resolved apiResponse \<Rightarrow>
          if \<not> ok apiResponse then
            Inr \<lparr>status = 500, headers = [content_type],
                 body = error_body (of_nat (up_status apiResponse))
                          (msg_http_status @ string_of_nat (up_status apiResponse))\<rparr>
          else (case up_json apiResponse of
            Inl m \<Rightarrow>
              Inr \<lparr>status = 500, headers = [content_type], body = error_body 500 (msg_parse @ m)\<rparr>
          | Inr api_data \<Rightarrow>
              bind_err (get_prop (J api_data) ''code'') (\<lambda>code.
                if not_strict_200 code then
                  Inr \<lparr>status = 200, headers = [content_type],
                       body = JSON_stringify api_data\<rparr>
                else handleRequest_final api_data)))"

text \<open>
  \<^verbatim>\<open>handleRequest\<close>: the result is the list of outbound calls made and either the
  response or the error that escapes the function.
\<close>

definition handleRequest :: "platform \<Rightarrow> request \<Rightarrow> outbound list \<times> (js_error + response)" where
  "handleRequest P request =
     (if req_method request \<noteq> ''GET'' then
        ([], Inr \<lparr>status = 405, headers = [content_type],
                  body = error_body 405 ''Method Not Allowed''\<rparr>)
      else
        let params = handleRequest_params (req_searchParams request);
            forward_url = TARGET_API_BASE_worker @ ''?'' @ toString P params;
            call = \<lparr>ob_url = forward_url, ob_method = ''GET'',
                    ob_headers = [(''User-Agent'', USER_AGENT)]\<rparr>
        in ([call], handleRequest_respond (fetch P call)))"

text \<open>The exported \<^verbatim>\<open>fetch(request, env, ctx)\<close>: any error escaping \<^verbatim>\<open>handleRequest\<close> becomes a 500.\<close>

definition worker_fetch :: "platform \<Rightarrow> request \<Rightarrow> outbound list \<times> response" where
  "worker_fetch P request =
     (case handleRequest P request of
        (calls, Inr r) \<Rightarrow> (calls, r)
      | (calls, Inl e) \<Rightarrow>
          (calls, \<lparr>status = 500, headers = [content_type],
                   body = error_body 500 (''Internal Server Error: '' @ message e)\<rparr>))"

section \<open>\<^verbatim>\<open>my-vercel-project/api/music.js\<close>\<close>

definition TARGET_API_BASE_music :: string where
  "TARGET_API_BASE_music = ''https://api.cenguigui.cn/api/mg_music/''"

definition msg_internal :: string where
  "msg_internal = [CHR 0xE4, CHR 0xBB, CHR 0xA3, CHR 0xE7, CHR 0x90, CHR 0x86, CHR 0xE8, CHR 0x84, CHR 0x9A, CHR 0xE6, CHR 0x9C, CHR 0xAC, CHR 0xE5, CHR 0x86, CHR 0x85, CHR 0xE9, CHR 0x83, CHR 0xA8, CHR 0xE9, CHR 0x94, CHR 0x99, CHR 0xE8, CHR 0xAF, CHR 0xAF] @ '': ''"

text \<open>\<^verbatim>\<open>.join('&')\<close>\<close>

fun join_amp :: "string list \<Rightarrow> string" where
  "join_amp [] = []"
| "join_amp [x] = x"
| "join_amp (x # y # zs) = x @ ''&'' @ join_amp (y # zs)"

text \<open>Lines 94 to 118.\<close>

definition onRequest_final :: "json \<Rightarrow> js_error + response" where
  "onRequest_final apiData =
     bind_err (get_prop (J apiData) ''data'') (\<lambda>d.
       let musicData = js_or d (J (JObj [])) in
       bind_err (get_prop (J apiData) ''code'') (\<lambda>code.
       bind_err (get_prop musicData ''title'') (\<lambda>title.
       bind_err (get_prop musicData ''singer'') (\<lambda>singer.
       bind_err (get_prop musicData ''cover'') (\<lambda>cover.
       bind_err (get_prop musicData ''link'') (\<lambda>link.
       bind_err (get_prop musicData ''music_url'') (\<lambda>music_url.
       bind_err (get_prop musicData ''lrc_url'') (\<lambda>lrc_url.
         Inr \<lparr>status = 200, headers = [content_type, allow_origin],
              body = JObj (JSON_stringify_object
                [(''code'', js_or code (J (JNum 200))),
                 (''title'', js_or title (J (JStr []))),
                 (''singer'', js_or singer (J (JStr []))),
                 (''cover'', js_or cover (J (JStr []))),
                 (''link'', js_or link (J (JStr []))),
                 (''music_url'', js_or music_url (J (JStr []))),
                 (''lyric'', js_or lrc_url (J (JStr [])))])\<rparr>))))))))"

text \<open>
  Lines 58 to 118, inside the \<^verbatim>\<open>try\<close>: a rejected \<^verbatim>\<open>fetch\<close> or \<^verbatim>\<open>json()\<close> throws.
  \<^verbatim>\<open>apiData.code && apiData.code !== 200\<close> is tested for truthiness.
\<close>

definition onRequest_try :: "fetch_result \<Rightarrow> js_error + response" where
  "onRequest_try outcome =
     (case outcome of
        Rejected m \<Rightarrow> Inl (Error m)
      | Resolved apiResponse \<Rightarrow>
          if \<not> ok apiResponse then
            Inr \<lparr>status = 500, headers = [content_type],
                 body = error_body 500 (msg_http_status @ string_of_nat (up_status apiResponse))\<rparr>
          else (case up_json apiResponse of
            Inl m \<Rightarrow> Inl (Error m)
          | Inr apiData \<Rightarrow>
              bind_err (get_prop (J apiData) ''code'') (\<lambda>code.
                if truthy code \<and> not_strict_200 code then
                  Inr \<lparr>status = 200, headers = [content_type],
                       body = JSON_stringify apiData\<rparr>
                else onRequest_final apiData)))"

definition onRequest :: "platform \<Rightarrow> request \<Rightarrow> outbound list \<times> response" where
  "onRequest P request =
     (let requestParams = onRequest_params (req_searchParams request);
          queryString = join_amp (map (\<lambda>(key, val).
                          encodeURIComponent P key @ ''='' @ encodeURIComponent P val) requestParams);
          forwardUrl = TARGET_API_BASE_music @ ''?'' @ queryString;
          call = \<lparr>ob_url = forwardUrl, ob_method = ''GET'',
                  ob_headers = [(''User-Agent'', USER_AGENT)]\<rparr>
      in ([call],
          case onRequest_try (fetch P call) of
            Inr r \<Rightarrow> r
          | Inl e \<Rightarrow> \<lparr>status = 500, headers = [content_type],
                       body = error_body 500 (msg_internal @ message e)\<rparr>))"

section \<open>Running the handlers\<close>

text \<open>
  A handler makes at most one outbound call, so its answer depends on the platform only
  through the outcome of that call: \<open>answering P out\<close> is the platform \<open>P\<close> whose
  \<^verbatim>\<open>fetch\<close> ends with \<open>out\<close>. \<open>plain_platform\<close> is a concrete platform for
  evaluating the handlers on concrete requests; the responses do not depend on how it
  writes URLs.
\<close>

definition answering :: "platform \<Rightarrow> fetch_result \<Rightarrow> platform" where
  "answering P out = P\<lparr>fetch := \<lambda>call. out\<rparr>"

definition plain_platform :: platform where
  "plain_platform =
     \<lparr>fetch = (\<lambda>call. Rejected ''unreachable''),
      toString = (\<lambda>ps. join_amp (map (\<lambda>(key, val). key @ ''='' @ val) ps)),
      encodeURIComponent = (\<lambda>s. s)\<rparr>"

text \<open>The upstream body and the output of the specification's example.\<close>

definition upstream_example :: json where
  "upstream_example =
     JObj [(''code'', JNum 200),
           (''data'', JObj [(''title'', JStr [CHR 0xE6, CHR 0x99, CHR 0xB4, CHR 0xE5, CHR 0xA4, CHR 0xA9]),
                            (''lrc_url'', JStr ''http://x/l.lrc'')])]"

definition normalized_example :: json where
  "normalized_example =
     JObj [(''code'', JNum 200),
           (''title'', JStr [CHR 0xE6, CHR 0x99, CHR 0xB4, CHR 0xE5, CHR 0xA4, CHR 0xA9]),
           (''singer'', JStr []),
           (''cover'', JStr []),
           (''link'', JStr []),
           (''music_url'', JStr []),
           (''lyric'', JStr ''http://x/l.lrc'')]"

section \<open>Properties of the parameter rewriting\<close>

subsection \<open>\<^verbatim>\<open>URLSearchParams\<close>\<close>

lemma getAll_delete: "URLSearchParams_getAll (URLSearchParams_delete ps k) k' = (if k' = k then [] else URLSearchParams_getAll ps k')"
  by (induction ps) (auto simp: URLSearchParams_getAll_def URLSearchParams_delete_def)

lemma getAll_Nil: "URLSearchParams_getAll [] k = []"
  by (simp add: URLSearchParams_getAll_def)

lemma getAll_Cons: "URLSearchParams_getAll (p # ps) k = (if fst p = k then snd p # URLSearchParams_getAll ps k else URLSearchParams_getAll ps k)"
  by (simp add: URLSearchParams_getAll_def)

lemma getAll_set: "URLSearchParams_getAll (URLSearchParams_set ps k v) k' = (if k' = k then [v] else URLSearchParams_getAll ps k')"
  by (induction ps) (auto simp: getAll_delete getAll_Cons getAll_Nil)

lemma has_getAll: "URLSearchParams_has ps k \<longleftrightarrow> URLSearchParams_getAll ps k \<noteq> []"
  by (induction ps) (auto simp: URLSearchParams_has_def URLSearchParams_getAll_def)

lemma get_getAll: "URLSearchParams_get ps k = (case URLSearchParams_getAll ps k of [] \<Rightarrow> None | v # vs \<Rightarrow> Some v)"
  by (induction ps) (auto simp: URLSearchParams_get_def URLSearchParams_getAll_def)

lemma delete_triv: "URLSearchParams_getAll ps k = [] \<Longrightarrow> URLSearchParams_delete ps k = ps"
  by (induction ps) (simp_all add: URLSearchParams_delete_def getAll_Cons split: if_splits)

lemma set_triv: "URLSearchParams_getAll ps k = [v] \<Longrightarrow> URLSearchParams_set ps k v = ps"
  by (induction ps) (auto simp: delete_triv getAll_Cons getAll_Nil split: if_splits)

lemma getAll_params:
  "URLSearchParams_getAll (handleRequest_params q) k =
     (if k = ''type'' then [''json'']
      else if k = ''n'' then [''1'']
      else if k = ''name'' then []
      else if k = ''msg'' \<and> URLSearchParams_has q ''name''
        then (case URLSearchParams_get q ''name'' of Some v \<Rightarrow> [v] | None \<Rightarrow> [])
      else if k = ''br'' \<and> \<not> URLSearchParams_has q ''br'' then [''1'']
      else URLSearchParams_getAll q k)"
  by (auto simp: handleRequest_params_def Let_def getAll_set getAll_delete has_getAll get_getAll
      split: list.splits)

lemma handleRequest_params_idem: "handleRequest_params (handleRequest_params q) = handleRequest_params q"
proof -
  let ?out = "handleRequest_params q"
  have t: "URLSearchParams_set ?out ''type'' ''json'' = ?out"
    by (rule set_triv) (simp add: getAll_params)
  have b: "URLSearchParams_has ?out ''br''"
    by (simp add: has_getAll getAll_params)
  have n: "URLSearchParams_set ?out ''n'' ''1'' = ?out"
    by (rule set_triv) (simp add: getAll_params)
  have m: "\<not> URLSearchParams_has ?out ''name''"
    by (simp add: has_getAll getAll_params)
  show ?thesis
    unfolding handleRequest_params_def [of ?out] Let_def
    by (simp only: t b n m if_True if_False simp_thms)
qed

subsection \<open>\<^verbatim>\<open>Map\<close>\<close>

lemma keys_Map_set:
  "map fst (Map_set m k v) = (if k \<in> set (map fst m) then map fst m else map fst m @ [k])"
  by (induction m) auto

lemma map_of_Map_set: "map_of (Map_set m k v) = (map_of m)(k \<mapsto> v)"
  by (induction m) (auto simp: fun_eq_iff)

lemma distinct_Map_set: "distinct (map fst m) \<Longrightarrow> distinct (map fst (Map_set m k v))"
  by (simp add: keys_Map_set)

lemma Map_set_triv: "map_of m k = Some v \<Longrightarrow> Map_set m k v = m"
  by (induction m) (auto split: if_splits)

lemma Map_delete_filter:
  "distinct (map fst m) \<Longrightarrow> Map_delete m k = filter (\<lambda>p. fst p \<noteq> k) m"
proof (induction m)
  case Nil
  show ?case by simp
next
  case (Cons p m)
  show ?case
  proof (cases "fst p = k")
    case True
    with Cons.prems have "k \<notin> fst ` set m" by auto
    then have "filter (\<lambda>p. fst p \<noteq> k) m = m"
      by (intro filter_True) force
    with True show ?thesis by simp
  next
    case False
    with Cons show ?thesis by simp
  qed
qed

lemma keys_Map_delete:
  "distinct (map fst m) \<Longrightarrow> set (map fst (Map_delete m k)) = set (map fst m) - {k}"
  by (auto simp: Map_delete_filter)

lemma distinct_Map_delete: "distinct (map fst m) \<Longrightarrow> distinct (map fst (Map_delete m k))"
  by (simp add: Map_delete_filter distinct_map_filter)

lemma map_of_Map_delete:
  "distinct (map fst m) \<Longrightarrow> map_of (Map_delete m k) = (map_of m)(k := None)"
  by (induction m) (auto simp: fun_eq_iff Map_delete_filter map_of_eq_None_iff image_iff)

lemma Map_delete_triv: "k \<notin> set (map fst m) \<Longrightarrow> Map_delete m k = m"
  by (induction m) auto

lemma distinct_Map_of_entries:
  "distinct (map fst m) \<Longrightarrow> distinct (map fst (Map_of_entries m ps))"
  by (induction ps arbitrary: m) (simp_all add: distinct_Map_set)

lemma Map_of_entries_append:
  "distinct (map fst ps) \<Longrightarrow> set (map fst m) \<inter> set (map fst ps) = {} \<Longrightarrow>
   Map_of_entries m ps = m @ ps"
proof (induction ps arbitrary: m)
  case Nil
  show ?case by simp
next
  case (Cons p ps)
  have new: "fst p \<notin> set (map fst m)" using Cons.prems(2) by auto
  then have step: "Map_set m (fst p) (snd p) = m @ [p]"
    by (induction m) auto
  have "Map_of_entries (m @ [p]) ps = (m @ [p]) @ ps"
    using Cons.prems by (intro Cons.IH) auto
  with step show ?case by simp
qed

lemma map_of_Map_of_entries:
  "map_of (Map_of_entries m ps) = map_of m ++ map_of (rev ps)"
  by (induction ps arbitrary: m) (simp_all add: map_of_Map_set)

lemma Map_has_map_of: "Map_has m k \<longleftrightarrow> map_of m k \<noteq> None"
  by (simp add: Map_has_def map_of_eq_None_iff)

lemma distinct_onRequest_params: "distinct (map fst (onRequest_params q))"
  by (simp add: onRequest_params_def Let_def distinct_Map_set distinct_Map_delete
      distinct_Map_of_entries)

lemma map_of_default:
  "map_of (if \<not> Map_has m k then Map_set m k v else m) =
     (if map_of m k = None then (map_of m)(k \<mapsto> v) else map_of m)"
  by (simp add: Map_has_map_of map_of_Map_set)

lemma distinct_default:
  "distinct (map fst m) \<Longrightarrow> distinct (map fst (if \<not> Map_has m k then Map_set m k v else m))"
  by (simp add: distinct_Map_set)

lemma map_of_rename:
  "distinct (map fst m) \<Longrightarrow>
   map_of (if Map_has m a
           then Map_delete (Map_set m b (case Map_get m a of Some v \<Rightarrow> v | None \<Rightarrow> u)) a
           else m) =
     (case map_of m a of None \<Rightarrow> map_of m | Some v \<Rightarrow> ((map_of m)(b \<mapsto> v))(a := None))"
  by (cases "map_of m a")
     (simp_all add: Map_has_map_of Map_get_def map_of_Map_delete distinct_Map_set map_of_Map_set)

lemma map_of_onRequest_params:
  "map_of (onRequest_params q) =
     (let f0 = map_of (rev q);
          f1 = (if f0 ''type'' = None then f0(''type'' \<mapsto> ''json'') else f0);
          f2 = (if f1 ''br'' = None then f1(''br'' \<mapsto> ''1'') else f1);
          f3 = f2(''n'' \<mapsto> ''1'')
      in case f3 ''name'' of None \<Rightarrow> f3 | Some v \<Rightarrow> (f3(''msg'' \<mapsto> v))(''name'' := None))"
proof -
  let ?m0 = "Map_of_entries [] q"
  let ?m1 = "if \<not> Map_has ?m0 ''type'' then Map_set ?m0 ''type'' ''json'' else ?m0"
  let ?m2 = "if \<not> Map_has ?m1 ''br'' then Map_set ?m1 ''br'' ''1'' else ?m1"
  let ?m3 = "Map_set ?m2 ''n'' ''1''"
  have d0: "distinct (map fst ?m0)" by (simp add: distinct_Map_of_entries)
  have d1: "distinct (map fst ?m1)" using d0 by (rule distinct_default)
  have d2: "distinct (map fst ?m2)" using d1 by (rule distinct_default)
  have d3: "distinct (map fst ?m3)" using d2 by (rule distinct_Map_set)
  have f0: "map_of ?m0 = map_of (rev q)" by (simp add: map_of_Map_of_entries)
  have f1: "map_of ?m1 = (if map_of ?m0 ''type'' = None then (map_of ?m0)(''type'' \<mapsto> ''json'') else map_of ?m0)"
    by (rule map_of_default)
  have f2: "map_of ?m2 = (if map_of ?m1 ''br'' = None then (map_of ?m1)(''br'' \<mapsto> ''1'') else map_of ?m1)"
    by (rule map_of_default)
  have f3: "map_of ?m3 = (map_of ?m2)(''n'' \<mapsto> ''1'')" by (rule map_of_Map_set)
  have "map_of (onRequest_params q) =
      (case map_of ?m3 ''name'' of None \<Rightarrow> map_of ?m3
       | Some v \<Rightarrow> ((map_of ?m3)(''msg'' \<mapsto> v))(''name'' := None))"
    unfolding onRequest_params_def Let_def using d3 by (rule map_of_rename)
  then show ?thesis
    unfolding Let_def f3 f2 f1 f0 .
qed

lemma onRequest_params_idem: "onRequest_params (onRequest_params q) = onRequest_params q"
proof -
  let ?out = "onRequest_params q"
  have c: "Map_of_entries [] ?out = ?out"
    using Map_of_entries_append [of ?out "[]"] by (simp add: distinct_onRequest_params)
  have t: "Map_has ?out ''type''"
    by (simp add: Map_has_map_of map_of_onRequest_params Let_def split: option.splits)
  have b: "Map_has ?out ''br''"
    by (simp add: Map_has_map_of map_of_onRequest_params Let_def split: option.splits)
  have n: "Map_set ?out ''n'' ''1'' = ?out"
    by (rule Map_set_triv) (simp add: map_of_onRequest_params Let_def split: option.splits)
  have m: "\<not> Map_has ?out ''name''"
    by (simp add: Map_has_map_of map_of_onRequest_params Let_def split: option.splits)
  show ?thesis
    unfolding onRequest_params_def [of ?out] Let_def
    by (simp only: c t b n m if_True if_False simp_thms)
qed

section \<open>Claims about the parameter rewriting\<close>

text \<open>
  C4: when the caller's query has \<^verbatim>\<open>name\<close> with value \<open>X\<close>, the rewritten query
  has \<^verbatim>\<open>msg\<close> with value \<open>X\<close> and no \<^verbatim>\<open>name\<close>. The value of \<^verbatim>\<open>name\<close>
  is the one the code reads: \<^verbatim>\<open>params.get('name')\<close> in \<^verbatim>\<open>_worker.js\<close>,
  \<^verbatim>\<open>requestParams.get('name')\<close> on the copied map in \<^verbatim>\<open>music.js\<close>. In the
  worker's output \<open>X\<close> is the only value of \<^verbatim>\<open>msg\<close>.
\<close>

theorem name_becomes_msg:
  "(URLSearchParams_get q ''name'' = Some X \<longrightarrow>
      URLSearchParams_get (handleRequest_params q) ''msg'' = Some X \<and>
      URLSearchParams_getAll (handleRequest_params q) ''msg'' = [X] \<and>
      \<not> URLSearchParams_has (handleRequest_params q) ''name'') \<and>
   (Map_get (Map_of_entries [] q) ''name'' = Some X \<longrightarrow>
      Map_get (onRequest_params q) ''msg'' = Some X \<and>
      \<not> Map_has (onRequest_params q) ''name'')"
proof (intro conjI impI)
  assume w: "URLSearchParams_get q ''name'' = Some X"
  then have h: "URLSearchParams_has q ''name''"
    by (auto simp: has_getAll get_getAll split: list.splits)
  from w h show "URLSearchParams_getAll (handleRequest_params q) ''msg'' = [X]"
    by (simp add: getAll_params)
  then show "URLSearchParams_get (handleRequest_params q) ''msg'' = Some X"
    by (simp add: get_getAll)
  show "\<not> URLSearchParams_has (handleRequest_params q) ''name''"
    by (simp add: has_getAll getAll_params)
next
  assume "Map_get (Map_of_entries [] q) ''name'' = Some X"
  then have m: "map_of (rev q) ''name'' = Some X"
    by (simp add: Map_get_def map_of_Map_of_entries)
  then show "Map_get (onRequest_params q) ''msg'' = Some X"
    by (simp add: Map_get_def map_of_onRequest_params Let_def)
  show "\<not> Map_has (onRequest_params q) ''name''"
    by (simp add: Map_has_map_of map_of_onRequest_params Let_def split: option.splits)
qed

theorem name_becomes_msg_witness:
  "URLSearchParams_get [(''name'', ''a-b''), (''msg'', ''old'')] ''name'' = Some ''a-b'' \<and>
   URLSearchParams_get (handleRequest_params [(''name'', ''a-b''), (''msg'', ''old'')]) ''msg''
     = Some ''a-b'' \<and>
   URLSearchParams_getAll (handleRequest_params [(''name'', ''a-b''), (''msg'', ''old'')]) ''msg''
     = [''a-b''] \<and>
   \<not> URLSearchParams_has (handleRequest_params [(''name'', ''a-b''), (''msg'', ''old'')]) ''name'' \<and>
   Map_get (Map_of_entries [] [(''name'', ''a-b''), (''msg'', ''old'')]) ''name'' = Some ''a-b'' \<and>
   Map_get (onRequest_params [(''name'', ''a-b''), (''msg'', ''old'')]) ''msg'' = Some ''a-b'' \<and>
   \<not> Map_has (onRequest_params [(''name'', ''a-b''), (''msg'', ''old'')]) ''name''"
  using name_becomes_msg [of "[(''name'', ''a-b''), (''msg'', ''old'')]" "''a-b''"]
  by (simp add: URLSearchParams_get_def Map_get_def)

text \<open>
  C5: the rewritten query has \<^verbatim>\<open>n\<close> = 1 whatever the caller sent (in the worker's
  output it is the only value of \<^verbatim>\<open>n\<close>); it has \<^verbatim>\<open>br\<close> = 1 when the caller sent
  no \<^verbatim>\<open>br\<close>, and the caller's \<^verbatim>\<open>br\<close> otherwise.
\<close>

theorem n_forced_br_defaulted:
  "URLSearchParams_getAll (handleRequest_params q) ''n'' = [''1''] \<and>
   URLSearchParams_getAll (handleRequest_params q) ''br'' =
     (if URLSearchParams_has q ''br'' then URLSearchParams_getAll q ''br'' else [''1'']) \<and>
   Map_get (onRequest_params q) ''n'' = Some ''1'' \<and>
   Map_get (onRequest_params q) ''br'' =
     (if Map_has (Map_of_entries [] q) ''br'' then Map_get (Map_of_entries [] q) ''br''
      else Some ''1'')"
proof (intro conjI)
  show "URLSearchParams_getAll (handleRequest_params q) ''n'' = [''1'']"
    by (simp add: getAll_params)
  show "URLSearchParams_getAll (handleRequest_params q) ''br'' =
     (if URLSearchParams_has q ''br'' then URLSearchParams_getAll q ''br'' else [''1''])"
    by (simp add: getAll_params)
  show "Map_get (onRequest_params q) ''n'' = Some ''1''"
    by (simp add: Map_get_def map_of_onRequest_params Let_def split: option.splits)
  show "Map_get (onRequest_params q) ''br'' =
     (if Map_has (Map_of_entries [] q) ''br'' then Map_get (Map_of_entries [] q) ''br''
      else Some ''1'')"
    by (simp add: Map_get_def Map_has_map_of map_of_Map_of_entries map_of_onRequest_params
        Let_def split: option.splits)
qed

theorem n_forced_br_defaulted_witness:
  "URLSearchParams_getAll (handleRequest_params [(''n'', ''9''), (''br'', ''5'')]) ''n'' = [''1''] \<and>
   URLSearchParams_getAll (handleRequest_params [(''n'', ''9''), (''br'', ''5'')]) ''br'' = [''5''] \<and>
   Map_get (onRequest_params [(''n'', ''9''), (''br'', ''5'')]) ''n'' = Some ''1'' \<and>
   Map_get (onRequest_params [(''n'', ''9''), (''br'', ''5'')]) ''br'' = Some ''5'' \<and>
   URLSearchParams_getAll (handleRequest_params [(''n'', ''9'')]) ''br'' = [''1''] \<and>
   Map_get (onRequest_params [(''n'', ''9'')]) ''br'' = Some ''1''"
  using n_forced_br_defaulted [of "[(''n'', ''9''), (''br'', ''5'')]"]
    n_forced_br_defaulted [of "[(''n'', ''9'')]"]
  by (simp add: URLSearchParams_has_def URLSearchParams_getAll_def Map_has_def Map_get_def)

text \<open>
  C6: the parameter rewriting is idempotent, in both variants: rewriting its own output
  gives that output again, as a list of pairs.
\<close>

theorem params_idempotent:
  "handleRequest_params (handleRequest_params q) = handleRequest_params q \<and>
   onRequest_params (onRequest_params q) = onRequest_params q"
  by (simp add: handleRequest_params_idem onRequest_params_idem)

section \<open>Properties of the response handling\<close>

lemma bind_err_Inr: "bind_err (Inr x) f = f x"
  by (simp add: bind_err_def)

lemma bind_err_Inl: "bind_err (Inl e) f = Inl e"
  by (simp add: bind_err_def)

lemma get_prop_defined: "\<not> nullish v \<Longrightarrow> get_prop v k = Inr (prop_value v k)"
  by (simp add: get_prop_def)

lemma nullish_J: "nullish (J d) \<longleftrightarrow> d = JNull"
  by (cases d) simp_all

lemma truthy_not_nullish: "truthy v \<Longrightarrow> \<not> nullish v"
  by (cases v rule: truthy.cases) simp_all

lemma truthy_or_object: "truthy (js_or v (J (JObj kvs)))"
  by (simp add: js_or_def)

lemma code_200_not_null: "prop_value (J d) k = J c \<Longrightarrow> d \<noteq> JNull"
  by (cases d) simp_all

subsection \<open>What \<^verbatim>\<open>JSON.stringify\<close> changes\<close>

lemma stringify_rational: "rational_numbers d \<Longrightarrow> JSON_stringify d = d"
proof (induction d rule: JSON_stringify.induct)
  case (4 xs)
  then show ?case by (simp add: list_all_iff map_idI)
next
  case (5 kvs)
  then show ?case by (auto simp: list_all_iff intro!: map_idI)
qed simp_all

lemma map_of_stringify:
  "map_of (map (\<lambda>(k, v). (k, JSON_stringify v)) kvs) k = map_option JSON_stringify (map_of kvs k)"
  by (induction kvs) auto

lemma stringify_200: "JSON_stringify v = JNum 200 \<longleftrightarrow> v = JNum 200"
  by (cases v rule: JSON_stringify.cases) auto

lemma code_of_stringify:
  "prop_value (J (JSON_stringify d)) ''code'' = J (JNum 200) \<longleftrightarrow>
   prop_value (J d) ''code'' = J (JNum 200)"
proof (cases d rule: JSON_stringify.cases)
  case (5 kvs)
  then show ?thesis
    by (cases "map_of kvs ''code''") (simp_all add: map_of_stringify stringify_200)
qed simp_all

subsection \<open>The object literal of either file\<close>

lemma handleRequest_final_eq:
  assumes "d \<noteq> JNull"
  shows "handleRequest_final d =
    (let music_data = js_or (prop_value (J d) ''data'') (J (JObj [])) in
     Inr \<lparr>status = 200, headers = [content_type, allow_origin],
          body = JObj (JSON_stringify_object
            [(''code'', js_coalesce (prop_value (J d) ''code'') (J (JNum 200))),
             (''title'', js_coalesce (prop_value music_data ''title'') (J (JStr []))),
             (''singer'', js_coalesce (prop_value music_data ''singer'') (J (JStr []))),
             (''cover'', js_coalesce (prop_value music_data ''cover'') (J (JStr []))),
             (''link'', js_coalesce (prop_value music_data ''link'') (J (JStr []))),
             (''music_url'', js_coalesce (prop_value music_data ''music_url'') (J (JStr []))),
             (''lyric'', js_coalesce (prop_value music_data ''lrc_url'') (J (JStr [])))])\<rparr>)"
proof -
  have a: "\<not> nullish (J d)" using assms by (simp add: nullish_J)
  have b: "\<not> nullish (js_or (prop_value (J d) ''data'') (J (JObj [])))"
    by (rule truthy_not_nullish) (rule truthy_or_object)
  show ?thesis
    unfolding handleRequest_final_def Let_def
    by (simp only: get_prop_defined [OF a] get_prop_defined [OF b] bind_err_Inr)
qed

lemma onRequest_final_eq:
  assumes "d \<noteq> JNull"
  shows "onRequest_final d =
    (let musicData = js_or (prop_value (J d) ''data'') (J (JObj [])) in
     Inr \<lparr>status = 200, headers = [content_type, allow_origin],
          body = JObj (JSON_stringify_object
            [(''code'', js_or (prop_value (J d) ''code'') (J (JNum 200))),
             (''title'', js_or (prop_value musicData ''title'') (J (JStr []))),
             (''singer'', js_or (prop_value musicData ''singer'') (J (JStr []))),
             (''cover'', js_or (prop_value musicData ''cover'') (J (JStr []))),
             (''link'', js_or (prop_value musicData ''link'') (J (JStr []))),
             (''music_url'', js_or (prop_value musicData ''music_url'') (J (JStr []))),
             (''lyric'', js_or (prop_value musicData ''lrc_url'') (J (JStr [])))])\<rparr>)"
proof -
  have a: "\<not> nullish (J d)" using assms by (simp add: nullish_J)
  have b: "\<not> nullish (js_or (prop_value (J d) ''data'') (J (JObj [])))"
    by (rule truthy_not_nullish) (rule truthy_or_object)
  show ?thesis
    unfolding onRequest_final_def Let_def
    by (simp only: get_prop_defined [OF a] get_prop_defined [OF b] bind_err_Inr)
qed




subsection \<open>The three ways a parsed body is answered, per file\<close>

lemma handleRequest_respond_parsed:
  assumes "ok r" and "up_json r = Inr d"
  shows "handleRequest_respond (Resolved r) =
    (if d = JNull then Inl (TypeError (cannot_read (J JNull) ''code''))
     else if prop_value (J d) ''code'' \<noteq> J (JNum 200)
       then Inr \<lparr>status = 200, headers = [content_type], body = JSON_stringify d\<rparr>
     else handleRequest_final d)"
  using assms
  by (simp add: handleRequest_respond_def get_prop_def nullish_J bind_err_def not_strict_200_def)

lemma onRequest_try_parsed:
  assumes "ok r" and "up_json r = Inr d"
  shows "onRequest_try (Resolved r) =
    (if d = JNull then Inl (TypeError (cannot_read (J JNull) ''code''))
     else if truthy (prop_value (J d) ''code'') \<and> prop_value (J d) ''code'' \<noteq> J (JNum 200)
       then Inr \<lparr>status = 200, headers = [content_type], body = JSON_stringify d\<rparr>
     else onRequest_final d)"
  using assms
  by (simp add: onRequest_try_def get_prop_def nullish_J bind_err_def not_strict_200_def)

subsection \<open>The entry points in terms of the outcome of the one outbound call\<close>

lemma worker_fetch_answering:
  "req_method req = ''GET'' \<Longrightarrow>
   snd (worker_fetch (answering P out) req) =
     (case handleRequest_respond out of
        Inr r \<Rightarrow> r
      | Inl e \<Rightarrow> \<lparr>status = 500, headers = [content_type],
                   body = error_body 500 (''Internal Server Error: '' @ message e)\<rparr>)"
  by (simp add: worker_fetch_def handleRequest_def answering_def Let_def split: sum.splits)

lemma onRequest_answering:
  "snd (onRequest (answering P out) req) =
     (case onRequest_try out of
        Inr r \<Rightarrow> r
      | Inl e \<Rightarrow> \<lparr>status = 500, headers = [content_type],
                   body = error_body 500 (msg_internal @ message e)\<rparr>)"
  by (simp add: onRequest_def answering_def Let_def)

section \<open>Claims about the response handling\<close>



text \<open>
  C2, as stated, fails on two kinds of body. In \<^verbatim>\<open>music.js\<close> a \<^verbatim>\<open>code\<close> that is
  present, not 200 and falsy (here 0) does not pass the test
  \<^verbatim>\<open>apiData.code && apiData.code !== 200\<close>, and the body is remapped instead of
  forwarded. In both files the body is forwarded through \<^verbatim>\<open>JSON.stringify\<close>, which
  writes a number that overflowed to \<^verbatim>\<open>Infinity\<close> (here the \<^verbatim>\<open>code\<close> of
  \<^verbatim>\<open>{"code":1e400,"msg":"m"}\<close>) as \<^verbatim>\<open>null\<close>.
\<close>

theorem forwarded_unchanged_counterexample:
  "body (snd (onRequest
      (answering plain_platform
         (Resolved \<lparr>up_status = 200,
                    up_json = Inr (JObj [(''code'', JNum 0), (''msg'', JStr ''not found'')])\<rparr>))
      \<lparr>req_method = ''GET'', req_searchParams = [(''name'', ''x'')]\<rparr>))
     \<noteq> JObj [(''code'', JNum 0), (''msg'', JStr ''not found'')] \<and>
   body (snd (worker_fetch
      (answering plain_platform
         (Resolved \<lparr>up_status = 200,
                    up_json = Inr (JObj [(''code'', JNumX PosInfinity), (''msg'', JStr ''m'')])\<rparr>))
      \<lparr>req_method = ''GET'', req_searchParams = [(''name'', ''x'')]\<rparr>))
     = JObj [(''code'', JNull), (''msg'', JStr ''m'')]"
  by (simp add: onRequest_answering onRequest_try_parsed worker_fetch_answering
      handleRequest_respond_parsed ok_def onRequest_final_eq js_or_def Let_def)

text \<open>
  C2 as amended: when the upstream answers with a success status and a JSON object whose
  \<^verbatim>\<open>code\<close> field is present and not strictly equal to 200, \<^verbatim>\<open>_worker.js\<close> (on a GET
  request) answers with status 200 and that object as \<^verbatim>\<open>JSON.stringify\<close> writes it;
  \<^verbatim>\<open>music.js\<close> does so when the \<^verbatim>\<open>code\<close> is also truthy. What is written is the
  object unchanged when all its numbers are rationals (no \<^verbatim>\<open>-0\<close>, no infinity).
\<close>

theorem domain_error_forwarded:
  "ok r \<and> up_json r = Inr (JObj kvs) \<and> map_of kvs ''code'' = Some c \<and> c \<noteq> JNum 200 \<longrightarrow>
     (req_method req = ''GET'' \<longrightarrow>
        snd (worker_fetch (answering P (Resolved r)) req) =
          \<lparr>status = 200, headers = [content_type], body = JSON_stringify (JObj kvs)\<rparr>) \<and>
     (truthy (J c) \<longrightarrow>
        snd (onRequest (answering P (Resolved r)) req) =
          \<lparr>status = 200, headers = [content_type], body = JSON_stringify (JObj kvs)\<rparr>) \<and>
     (rational_numbers (JObj kvs) \<longrightarrow>
        (req_method req = ''GET'' \<longrightarrow>
           snd (worker_fetch (answering P (Resolved r)) req) =
             \<lparr>status = 200, headers = [content_type], body = JObj kvs\<rparr>) \<and>
        (truthy (J c) \<longrightarrow>
           snd (onRequest (answering P (Resolved r)) req) =
             \<lparr>status = 200, headers = [content_type], body = JObj kvs\<rparr>))"
proof (intro impI)
  assume a: "ok r \<and> up_json r = Inr (JObj kvs) \<and> map_of kvs ''code'' = Some c \<and> c \<noteq> JNum 200"
  then have c: "prop_value (J (JObj kvs)) ''code'' = J c" by simp
  from a c have "handleRequest_respond (Resolved r) =
      Inr \<lparr>status = 200, headers = [content_type], body = JSON_stringify (JObj kvs)\<rparr>"
    by (simp add: handleRequest_respond_parsed [of r "JObj kvs"])
  then have w: "snd (worker_fetch (answering P (Resolved r)) req) =
      \<lparr>status = 200, headers = [content_type], body = JSON_stringify (JObj kvs)\<rparr>"
    if "req_method req = ''GET''"
    using that by (simp add: worker_fetch_answering)
  from a c have "onRequest_try (Resolved r) =
      Inr \<lparr>status = 200, headers = [content_type], body = JSON_stringify (JObj kvs)\<rparr>"
    if "truthy (J c)"
    using that by (simp add: onRequest_try_parsed [of r "JObj kvs"])
  then have p: "snd (onRequest (answering P (Resolved r)) req) =
      \<lparr>status = 200, headers = [content_type], body = JSON_stringify (JObj kvs)\<rparr>"
    if "truthy (J c)"
    using that by (simp add: onRequest_answering)
  have u: "JSON_stringify (JObj kvs) = JObj kvs" if "rational_numbers (JObj kvs)"
    using that by (rule stringify_rational)
  from w p u show "(req_method req = ''GET'' \<longrightarrow>
        snd (worker_fetch (answering P (Resolved r)) req) =
          \<lparr>status = 200, headers = [content_type], body = JSON_stringify (JObj kvs)\<rparr>) \<and>
     (truthy (J c) \<longrightarrow>
        snd (onRequest (answering P (Resolved r)) req) =
          \<lparr>status = 200, headers = [content_type], body = JSON_stringify (JObj kvs)\<rparr>) \<and>
     (rational_numbers (JObj kvs) \<longrightarrow>
        (req_method req = ''GET'' \<longrightarrow>
           snd (worker_fetch (answering P (Resolved r)) req) =
             \<lparr>status = 200, headers = [content_type], body = JObj kvs\<rparr>) \<and>
        (truthy (J c) \<longrightarrow>
           snd (onRequest (answering P (Resolved r)) req) =
             \<lparr>status = 200, headers = [content_type], body = JObj kvs\<rparr>))"
    by simp
qed

theorem domain_error_forwarded_witness:
  "ok \<lparr>up_status = 200,
       up_json = Inr (JObj [(''code'', JNum 404), (''msg'', JStr ''not found'')])\<rparr> \<and>
   map_of [(''code'', JNum 404), (''msg'', JStr ''not found'')] ''code'' = Some (JNum 404) \<and>
   JNum 404 \<noteq> JNum 200 \<and>
   truthy (J (JNum 404)) \<and>
   rational_numbers (JObj [(''code'', JNum 404), (''msg'', JStr ''not found'')]) \<and>
   snd (worker_fetch
      (answering plain_platform
         (Resolved \<lparr>up_status = 200,
                    up_json = Inr (JObj [(''code'', JNum 404), (''msg'', JStr ''not found'')])\<rparr>))
      \<lparr>req_method = ''GET'', req_searchParams = [(''name'', ''x'')]\<rparr>) =
     \<lparr>status = 200, headers = [content_type],
      body = JObj [(''code'', JNum 404), (''msg'', JStr ''not found'')]\<rparr> \<and>
   snd (onRequest
      (answering plain_platform
         (Resolved \<lparr>up_status = 200,
                    up_json = Inr (JObj [(''code'', JNum 404), (''msg'', JStr ''not found'')])\<rparr>))
      \<lparr>req_method = ''GET'', req_searchParams = [(''name'', ''x'')]\<rparr>) =
     \<lparr>status = 200, headers = [content_type],
      body = JObj [(''code'', JNum 404), (''msg'', JStr ''not found'')]\<rparr>"
  using domain_error_forwarded
    [of "\<lparr>up_status = 200,
          up_json = Inr (JObj [(''code'', JNum 404), (''msg'', JStr ''not found'')])\<rparr>"
        "[(''code'', JNum 404), (''msg'', JStr ''not found'')]" "JNum 404"
        "\<lparr>req_method = ''GET'', req_searchParams = [(''name'', ''x'')]\<rparr>" plain_platform]
  by (simp add: ok_def)

text \<open>
  C3 fails in \<^verbatim>\<open>_worker.js\<close>: for the upstream body \<^verbatim>\<open>{data:{title:"t"}}\<close>, which
  has no \<^verbatim>\<open>code\<close>, the test \<^verbatim>\<open>api_data.code !== 200\<close> holds and the body is
  forwarded as it is, while \<^verbatim>\<open>music.js\<close> remaps the same body with \<^verbatim>\<open>code\<close> 200.
\<close>

theorem missing_code_worker_forwards:
  "snd (worker_fetch
      (answering plain_platform
         (Resolved \<lparr>up_status = 200,
                    up_json = Inr (JObj [(''data'', JObj [(''title'', JStr ''t'')])])\<rparr>))
      \<lparr>req_method = ''GET'', req_searchParams = [(''name'', ''x'')]\<rparr>) =
     \<lparr>status = 200, headers = [content_type],
      body = JObj [(''data'', JObj [(''title'', JStr ''t'')])]\<rparr> \<and>
   snd (onRequest
      (answering plain_platform
         (Resolved \<lparr>up_status = 200,
                    up_json = Inr (JObj [(''data'', JObj [(''title'', JStr ''t'')])])\<rparr>))
      \<lparr>req_method = ''GET'', req_searchParams = [(''name'', ''x'')]\<rparr>) =
     \<lparr>status = 200, headers = [content_type, allow_origin],
      body = JObj [(''code'', JNum 200), (''title'', JStr ''t''), (''singer'', JStr []),
                   (''cover'', JStr []), (''link'', JStr []), (''music_url'', JStr []),
                   (''lyric'', JStr [])]\<rparr>"
  by (simp add: worker_fetch_answering onRequest_answering handleRequest_respond_parsed
      onRequest_try_parsed ok_def onRequest_final_eq js_or_def Let_def)




text \<open>
  C7, as stated, fails in \<^verbatim>\<open>_worker.js\<close>: for an upstream HTTP status outside 200 to
  299 the body's \<^verbatim>\<open>code\<close> is that status (here 404), not 500.
\<close>

theorem upstream_status_counterexample:
  "body (snd (worker_fetch
      (answering plain_platform (Resolved \<lparr>up_status = 404, up_json = Inl ''no body''\<rparr>))
      \<lparr>req_method = ''GET'', req_searchParams = [(''name'', ''x'')]\<rparr>))
     = error_body 404 (msg_http_status @ string_of_nat 404) \<and>
   prop_value (J (body (snd (worker_fetch
      (answering plain_platform (Resolved \<lparr>up_status = 404, up_json = Inl ''no body''\<rparr>))
      \<lparr>req_method = ''GET'', req_searchParams = [(''name'', ''x'')]\<rparr>)))) ''code''
     \<noteq> J (JNum 500)"
  by (simp add: worker_fetch_answering handleRequest_respond_def ok_def error_body_def)

text \<open>
  C7 as amended: on a network error, an upstream HTTP status outside 200 to 299, or a
  failure to parse the upstream body, both files answer with HTTP status 500 and a body
  \<^verbatim>\<open>{code, error_msg}\<close>, where \<^verbatim>\<open>error_msg\<close> is a fixed prefix followed by the
  error's message or the upstream status; \<^verbatim>\<open>code\<close> is 500, except that
  \<^verbatim>\<open>_worker.js\<close> (which answers so on GET requests) puts the upstream status there
  when that status is outside 200 to 299.
\<close>

theorem transport_failures:
  "(req_method req = ''GET'' \<longrightarrow>
      snd (worker_fetch (answering P (Rejected m)) req) =
        \<lparr>status = 500, headers = [content_type], body = error_body 500 (msg_network @ m)\<rparr> \<and>
      (\<not> ok r \<longrightarrow>
         snd (worker_fetch (answering P (Resolved r)) req) =
           \<lparr>status = 500, headers = [content_type],
            body = error_body (of_nat (up_status r))
                     (msg_http_status @ string_of_nat (up_status r))\<rparr>) \<and>
      (ok r \<and> up_json r = Inl m \<longrightarrow>
         snd (worker_fetch (answering P (Resolved r)) req) =
           \<lparr>status = 500, headers = [content_type], body = error_body 500 (msg_parse @ m)\<rparr>)) \<and>
   snd (onRequest (answering P (Rejected m)) req) =
     \<lparr>status = 500, headers = [content_type], body = error_body 500 (msg_internal @ m)\<rparr> \<and>
   (\<not> ok r \<longrightarrow>
      snd (onRequest (answering P (Resolved r)) req) =
        \<lparr>status = 500, headers = [content_type],
         body = error_body 500 (msg_http_status @ string_of_nat (up_status r))\<rparr>) \<and>
   (ok r \<and> up_json r = Inl m \<longrightarrow>
      snd (onRequest (answering P (Resolved r)) req) =
        \<lparr>status = 500, headers = [content_type], body = error_body 500 (msg_internal @ m)\<rparr>)"
proof (intro conjI impI)
  assume g: "req_method req = ''GET''"
  show "snd (worker_fetch (answering P (Rejected m)) req) =
      \<lparr>status = 500, headers = [content_type], body = error_body 500 (msg_network @ m)\<rparr>"
    using g by (simp add: worker_fetch_answering handleRequest_respond_def)
  show "snd (worker_fetch (answering P (Resolved r)) req) =
      \<lparr>status = 500, headers = [content_type],
       body = error_body (of_nat (up_status r)) (msg_http_status @ string_of_nat (up_status r))\<rparr>"
    if "\<not> ok r"
    using g that by (simp add: worker_fetch_answering handleRequest_respond_def)
  show "snd (worker_fetch (answering P (Resolved r)) req) =
      \<lparr>status = 500, headers = [content_type], body = error_body 500 (msg_parse @ m)\<rparr>"
    if "ok r \<and> up_json r = Inl m"
    using g that by (simp add: worker_fetch_answering handleRequest_respond_def)
next
  show "snd (onRequest (answering P (Rejected m)) req) =
      \<lparr>status = 500, headers = [content_type], body = error_body 500 (msg_internal @ m)\<rparr>"
    by (simp add: onRequest_answering onRequest_try_def)
next
  assume "\<not> ok r"
  then show "snd (onRequest (answering P (Resolved r)) req) =
      \<lparr>status = 500, headers = [content_type],
       body = error_body 500 (msg_http_status @ string_of_nat (up_status r))\<rparr>"
    by (simp add: onRequest_answering onRequest_try_def)
next
  assume "ok r \<and> up_json r = Inl m"
  then show "snd (onRequest (answering P (Resolved r)) req) =
      \<lparr>status = 500, headers = [content_type], body = error_body 500 (msg_internal @ m)\<rparr>"
    by (simp add: onRequest_answering onRequest_try_def)
qed

theorem transport_failures_witness:
  "snd (worker_fetch (answering plain_platform (Rejected ''connection refused''))
      \<lparr>req_method = ''GET'', req_searchParams = []\<rparr>) =
     \<lparr>status = 500, headers = [content_type],
      body = error_body 500 (msg_network @ ''connection refused'')\<rparr> \<and>
   \<not> ok \<lparr>up_status = 503, up_json = Inl ''connection refused''\<rparr> \<and>
   snd (worker_fetch
      (answering plain_platform (Resolved \<lparr>up_status = 503, up_json = Inl ''connection refused''\<rparr>))
      \<lparr>req_method = ''GET'', req_searchParams = []\<rparr>) =
     \<lparr>status = 500, headers = [content_type],
      body = error_body 503 (msg_http_status @ string_of_nat 503)\<rparr> \<and>
   snd (onRequest
      (answering plain_platform (Resolved \<lparr>up_status = 503, up_json = Inl ''connection refused''\<rparr>))
      \<lparr>req_method = ''GET'', req_searchParams = []\<rparr>) =
     \<lparr>status = 500, headers = [content_type],
      body = error_body 500 (msg_http_status @ string_of_nat 503)\<rparr> \<and>
   snd (onRequest (answering plain_platform (Rejected ''connection refused''))
      \<lparr>req_method = ''GET'', req_searchParams = []\<rparr>) =
     \<lparr>status = 500, headers = [content_type],
      body = error_body 500 (msg_internal @ ''connection refused'')\<rparr> \<and>
   ok \<lparr>up_status = 200, up_json = Inl ''Unexpected token''\<rparr> \<and>
   snd (worker_fetch
      (answering plain_platform (Resolved \<lparr>up_status = 200, up_json = Inl ''Unexpected token''\<rparr>))
      \<lparr>req_method = ''GET'', req_searchParams = []\<rparr>) =
     \<lparr>status = 500, headers = [content_type],
      body = error_body 500 (msg_parse @ ''Unexpected token'')\<rparr> \<and>
   snd (onRequest
      (answering plain_platform (Resolved \<lparr>up_status = 200, up_json = Inl ''Unexpected token''\<rparr>))
      \<lparr>req_method = ''GET'', req_searchParams = []\<rparr>) =
     \<lparr>status = 500, headers = [content_type],
      body = error_body 500 (msg_internal @ ''Unexpected token'')\<rparr>"
proof -
  have n: "\<not> ok \<lparr>up_status = 503, up_json = Inl ''connection refused''\<rparr>"
    by (simp add: ok_def)
  have y: "ok \<lparr>up_status = 200, up_json = Inl ''Unexpected token''\<rparr>"
    by (simp add: ok_def)
  show ?thesis
    using transport_failures
        [of "\<lparr>req_method = ''GET'', req_searchParams = []\<rparr>" plain_platform
            "''connection refused''"
            "\<lparr>up_status = 503, up_json = Inl ''connection refused''\<rparr>"]
      transport_failures
        [of "\<lparr>req_method = ''GET'', req_searchParams = []\<rparr>" plain_platform
            "''Unexpected token''"
            "\<lparr>up_status = 200, up_json = Inl ''Unexpected token''\<rparr>"]
    by (simp add: n y del: string_of_nat.simps)
qed



text \<open>The headers of a response of either file, by how the outbound call ended.\<close>

lemma headers_distinct: "allow_origin \<noteq> content_type"
  by (simp add: allow_origin_def content_type_def)

lemma error_headers:
  "s \<noteq> 200 \<Longrightarrow>
   content_type \<in> set (headers \<lparr>status = s, headers = [content_type], body = b\<rparr>) \<and>
   (allow_origin \<in> set (headers \<lparr>status = s, headers = [content_type], body = b\<rparr>) \<longleftrightarrow>
      status \<lparr>status = s, headers = [content_type], body = b\<rparr> = 200 \<and>
      prop_value (J (body \<lparr>status = s, headers = [content_type], body = b\<rparr>)) ''code''
        = J (JNum 200))"
  using headers_distinct by simp

lemma forwarded_headers:
  "prop_value (J d) ''code'' \<noteq> J (JNum 200) \<Longrightarrow>
   content_type \<in> set (headers \<lparr>status = 200, headers = [content_type],
       body = JSON_stringify d\<rparr>) \<and>
   (allow_origin \<in> set (headers \<lparr>status = 200, headers = [content_type],
       body = JSON_stringify d\<rparr>) \<longleftrightarrow>
      status \<lparr>status = 200, headers = [content_type], body = JSON_stringify d\<rparr> = 200 \<and>
      prop_value (J (body \<lparr>status = 200, headers = [content_type],
         body = JSON_stringify d\<rparr>)) ''code'' = J (JNum 200))"
  using headers_distinct by (simp add: code_of_stringify)

lemma handleRequest_respond_headers:
  assumes a: "handleRequest_respond out = Inr resp"
  shows "content_type \<in> set (headers resp) \<and>
   (allow_origin \<in> set (headers resp) \<longleftrightarrow>
      status resp = 200 \<and> prop_value (J (body resp)) ''code'' = J (JNum 200))"
proof (cases out)
  case (Rejected m)
  with a have "resp = \<lparr>status = 500, headers = [content_type],
      body = error_body 500 (msg_network @ m)\<rparr>"
    by (simp add: handleRequest_respond_def)
  then show ?thesis using error_headers [of 500] by simp
next
  case (Resolved r)
  show ?thesis
  proof (cases "ok r")
    case False
    with a Resolved have "resp = \<lparr>status = 500, headers = [content_type],
        body = error_body (of_nat (up_status r))
                 (msg_http_status @ string_of_nat (up_status r))\<rparr>"
      by (simp add: handleRequest_respond_def)
    then show ?thesis using error_headers [of 500] by simp
  next
    case True
    show ?thesis
    proof (cases "up_json r")
      case (Inl m)
      with a Resolved True have "resp = \<lparr>status = 500, headers = [content_type],
          body = error_body 500 (msg_parse @ m)\<rparr>"
        by (simp add: handleRequest_respond_def)
      then show ?thesis using error_headers [of 500] by simp
    next
      case (Inr d)
      note parsed = handleRequest_respond_parsed [OF True Inr]
      from a Resolved have b: "handleRequest_respond (Resolved r) = Inr resp" by simp
      show ?thesis
      proof (cases "prop_value (J d) ''code'' = J (JNum 200)")
        case False
        with b have "resp = \<lparr>status = 200, headers = [content_type], body = JSON_stringify d\<rparr>"
          unfolding parsed by (simp split: if_splits)
        with forwarded_headers [OF False] show ?thesis by simp
      next
        case c: True
        then have nn: "d \<noteq> JNull" by (rule code_200_not_null)
        from b c nn have "handleRequest_final d = Inr resp"
          unfolding parsed by simp
        then have "Inr resp = handleRequest_final d" by simp
        then show ?thesis
          unfolding handleRequest_final_eq [OF nn] Let_def c
          using headers_distinct by (auto simp: js_coalesce_def)
      qed
    qed
  qed
qed

lemma onRequest_try_headers:
  assumes a: "onRequest_try out = Inr resp"
  shows "content_type \<in> set (headers resp) \<and>
   (allow_origin \<in> set (headers resp) \<longleftrightarrow>
      status resp = 200 \<and> prop_value (J (body resp)) ''code'' = J (JNum 200))"
proof (cases out)
  case (Rejected m)
  with a show ?thesis
    by (simp add: onRequest_try_def)
next
  case (Resolved r)
  show ?thesis
  proof (cases "ok r")
    case False
    with a Resolved have "resp = \<lparr>status = 500, headers = [content_type],
        body = error_body 500 (msg_http_status @ string_of_nat (up_status r))\<rparr>"
      by (simp add: onRequest_try_def)
    then show ?thesis using error_headers [of 500] by simp
  next
    case True
    show ?thesis
    proof (cases "up_json r")
      case (Inl m)
      with a Resolved True show ?thesis
        by (simp add: onRequest_try_def)
    next
      case (Inr d)
      note parsed = onRequest_try_parsed [OF True Inr]
      from a Resolved have b: "onRequest_try (Resolved r) = Inr resp" by simp
      from b have nn: "d \<noteq> JNull"
        unfolding parsed by (simp split: if_splits)
      show ?thesis
      proof (cases "truthy (prop_value (J d) ''code'') \<and> prop_value (J d) ''code'' \<noteq> J (JNum 200)")
        case True
        with b nn have "resp = \<lparr>status = 200, headers = [content_type], body = JSON_stringify d\<rparr>"
          unfolding parsed by simp
        moreover from True have "prop_value (J d) ''code'' \<noteq> J (JNum 200)" by simp
        ultimately show ?thesis using forwarded_headers [of d] by simp
      next
        case c: False
        with b nn have f: "onRequest_final d = Inr resp"
          unfolding parsed by simp
        from c have "js_or (prop_value (J d) ''code'') (J (JNum 200)) = J (JNum 200)"
          by (auto simp: js_or_def)
        moreover from f have "Inr resp = onRequest_final d" by simp
        ultimately show ?thesis
          unfolding onRequest_final_eq [OF nn] Let_def
          using headers_distinct by auto
      qed
    qed
  qed
qed

text \<open>
  C9, as stated, fails: the forwarded upstream error (here \<^verbatim>\<open>{code:404, msg:"not found"}\<close>)
  carries only \<^verbatim>\<open>Content-Type\<close>, as every error response does.
\<close>

theorem forwarded_error_headers_counterexample:
  "headers (snd (worker_fetch
      (answering plain_platform
         (Resolved \<lparr>up_status = 200,
                    up_json = Inr (JObj [(''code'', JNum 404), (''msg'', JStr ''not found'')])\<rparr>))
      \<lparr>req_method = ''GET'', req_searchParams = [(''name'', ''x'')]\<rparr>))
     = [(''Content-Type'', ''application/json; charset=utf-8'')] \<and>
   (''Access-Control-Allow-Origin'', ''*'') \<notin> set (headers (snd (worker_fetch
      (answering plain_platform
         (Resolved \<lparr>up_status = 200,
                    up_json = Inr (JObj [(''code'', JNum 404), (''msg'', JStr ''not found'')])\<rparr>))
      \<lparr>req_method = ''GET'', req_searchParams = [(''name'', ''x'')]\<rparr>)))"
  by (simp add: worker_fetch_answering handleRequest_respond_parsed ok_def content_type_def)

text \<open>
  C9 as amended: every response of \<^verbatim>\<open>_worker.js\<close> and of \<^verbatim>\<open>music.js\<close> carries
  \<^verbatim>\<open>Content-Type: application/json; charset=utf-8\<close>; it carries
  \<^verbatim>\<open>Access-Control-Allow-Origin: *\<close> exactly when it is the remapped success response,
  the one with status 200 whose body has \<^verbatim>\<open>code\<close> 200. Forwarded upstream errors and
  all error responses carry \<^verbatim>\<open>Content-Type\<close> only.
\<close>

theorem response_headers:
  "content_type \<in> set (headers (snd (worker_fetch P req))) \<and>
   (allow_origin \<in> set (headers (snd (worker_fetch P req))) \<longleftrightarrow>
      status (snd (worker_fetch P req)) = 200 \<and>
      prop_value (J (body (snd (worker_fetch P req)))) ''code'' = J (JNum 200)) \<and>
   content_type \<in> set (headers (snd (onRequest P req))) \<and>
   (allow_origin \<in> set (headers (snd (onRequest P req))) \<longleftrightarrow>
      status (snd (onRequest P req)) = 200 \<and>
      prop_value (J (body (snd (onRequest P req)))) ''code'' = J (JNum 200))"
proof -
  have hdr: "allow_origin \<noteq> content_type"
    by (simp add: allow_origin_def content_type_def)
  let ?w = "snd (worker_fetch P req)"
  have w: "content_type \<in> set (headers ?w) \<and>
      (allow_origin \<in> set (headers ?w) \<longleftrightarrow>
         status ?w = 200 \<and> prop_value (J (body ?w)) ''code'' = J (JNum 200))"
  proof (cases "req_method req = ''GET''")
    case False
    then show ?thesis
      using hdr by (simp add: worker_fetch_def handleRequest_def error_body_def)
  next
    case True
    let ?call = "\<lparr>ob_url = TARGET_API_BASE_worker @ ''?'' @
                    toString P (handleRequest_params (req_searchParams req)),
                  ob_method = ''GET'', ob_headers = [(''User-Agent'', USER_AGENT)]\<rparr>"
    show ?thesis
    proof (cases "handleRequest_respond (fetch P ?call)")
      case (Inl e)
      with True show ?thesis
        using hdr by (simp add: worker_fetch_def handleRequest_def Let_def error_body_def)
    next
      case (Inr resp)
      with True have "?w = resp"
        by (simp add: worker_fetch_def handleRequest_def Let_def)
      with handleRequest_respond_headers [OF Inr] show ?thesis by simp
    qed
  qed
  let ?p = "snd (onRequest P req)"
  let ?pcall = "\<lparr>ob_url = TARGET_API_BASE_music @ ''?'' @
                    join_amp (map (\<lambda>(key, val).
                      encodeURIComponent P key @ ''='' @ encodeURIComponent P val)
                      (onRequest_params (req_searchParams req))),
                  ob_method = ''GET'', ob_headers = [(''User-Agent'', USER_AGENT)]\<rparr>"
  have p: "content_type \<in> set (headers ?p) \<and>
      (allow_origin \<in> set (headers ?p) \<longleftrightarrow>
         status ?p = 200 \<and> prop_value (J (body ?p)) ''code'' = J (JNum 200))"
  proof (cases "onRequest_try (fetch P ?pcall)")
    case (Inl e)
    then show ?thesis
      using hdr by (simp add: onRequest_def Let_def error_body_def)
  next
    case (Inr resp)
    then have "?p = resp"
      by (simp add: onRequest_def Let_def)
    with onRequest_try_headers [OF Inr] show ?thesis by simp
  qed
  from w p show ?thesis by simp
qed

theorem response_headers_witness:
  "content_type \<in> set (headers (snd (worker_fetch
      (answering plain_platform (Resolved \<lparr>up_status = 200, up_json = Inr upstream_example\<rparr>))
      \<lparr>req_method = ''GET'', req_searchParams = []\<rparr>))) \<and>
   allow_origin \<in> set (headers (snd (worker_fetch
      (answering plain_platform (Resolved \<lparr>up_status = 200, up_json = Inr upstream_example\<rparr>))
      \<lparr>req_method = ''GET'', req_searchParams = []\<rparr>))) \<and>
   content_type \<in> set (headers (snd (onRequest
      (answering plain_platform (Resolved \<lparr>up_status = 200, up_json = Inr upstream_example\<rparr>))
      \<lparr>req_method = ''GET'', req_searchParams = []\<rparr>))) \<and>
   allow_origin \<in> set (headers (snd (onRequest
      (answering plain_platform (Resolved \<lparr>up_status = 200, up_json = Inr upstream_example\<rparr>))
      \<lparr>req_method = ''GET'', req_searchParams = []\<rparr>))) \<and>
   content_type \<in> set (headers (snd (worker_fetch plain_platform
      \<lparr>req_method = ''POST'', req_searchParams = []\<rparr>))) \<and>
   allow_origin \<notin> set (headers (snd (worker_fetch plain_platform
      \<lparr>req_method = ''POST'', req_searchParams = []\<rparr>))) \<and>
   content_type \<in> set (headers (snd (onRequest plain_platform
      \<lparr>req_method = ''GET'', req_searchParams = []\<rparr>))) \<and>
   allow_origin \<notin> set (headers (snd (onRequest plain_platform
      \<lparr>req_method = ''GET'', req_searchParams = []\<rparr>)))"
proof -
  have w: "snd (worker_fetch
      (answering plain_platform (Resolved \<lparr>up_status = 200, up_json = Inr upstream_example\<rparr>))
      \<lparr>req_method = ''GET'', req_searchParams = []\<rparr>) =
     \<lparr>status = 200, headers = [content_type, allow_origin], body = normalized_example\<rparr>"
    by (simp add: worker_fetch_answering handleRequest_respond_parsed ok_def
        upstream_example_def normalized_example_def handleRequest_final_eq Let_def
        js_or_def js_coalesce_def)
  have p: "snd (onRequest
      (answering plain_platform (Resolved \<lparr>up_status = 200, up_json = Inr upstream_example\<rparr>))
      \<lparr>req_method = ''GET'', req_searchParams = []\<rparr>) =
     \<lparr>status = 200, headers = [content_type, allow_origin], body = normalized_example\<rparr>"
    by (simp add: onRequest_answering onRequest_try_parsed ok_def
        upstream_example_def normalized_example_def onRequest_final_eq Let_def js_or_def)
  have e: "status (snd (worker_fetch plain_platform
      \<lparr>req_method = ''POST'', req_searchParams = []\<rparr>)) = 405"
    by (simp add: worker_fetch_def handleRequest_def)
  have f: "status (snd (onRequest plain_platform
      \<lparr>req_method = ''GET'', req_searchParams = []\<rparr>)) = 500"
    by (simp add: onRequest_def onRequest_try_def plain_platform_def Let_def)
  show ?thesis
    using response_headers
        [of "answering plain_platform
               (Resolved \<lparr>up_status = 200, up_json = Inr upstream_example\<rparr>)"
            "\<lparr>req_method = ''GET'', req_searchParams = []\<rparr>"]
      response_headers [of plain_platform "\<lparr>req_method = ''POST'', req_searchParams = []\<rparr>"]
      response_headers [of plain_platform "\<lparr>req_method = ''GET'', req_searchParams = []\<rparr>"]
    by (simp add: w p e f normalized_example_def)
qed

end
